theory Spec2Isabelle
  imports Complex_Main
begin

section \<open>Python values handled by dsctl\<close>

text \<open>
  The script works on what \<^verbatim>\<open>json.load\<close> and \<^verbatim>\<open>response.json()\<close> return: Python
  values built from \<^verbatim>\<open>None\<close>, booleans, integers, floats, strings, lists and dicts.
  A dict is an association list read with \<open>map_of\<close>: the keys of a JSON object are
  strings, a dict holds a key once, and \<open>map_of\<close> reads the first entry of a key.
  A string is a list of bytes (UTF-8); the only character the code looks for is the
  ASCII hyphen, which never occurs inside a multi-byte sequence.
  A float is the rational it denotes, or one of the three special values
  \<^verbatim>\<open>json.load\<close> also accepts; the code only ever tests a number for zero.
\<close>

datatype pyfloat = Finite rat | PosInf | NegInf | NaN

datatype json =
    JNull
  | JBool bool
  | JInt int
  | JFloat pyfloat
  | JStr string
  | JArr "json list"
  | JObj "(string \<times> json) list"

text \<open>
  The exceptions the script's code can raise or names in a handler. An uncaught
  exception is a value \<open>Inl e\<close> of the result type \<open>exc + 'a\<close>.
\<close>

datatype exc = KeyError | ValueError | TypeError | AttributeError

text \<open>Sequencing of statements that may raise: the first exception ends the block.\<close>

definition and_then :: "exc + 'a \<Rightarrow> ('a \<Rightarrow> exc + 'b) \<Rightarrow> exc + 'b" where
  "and_then r f = (case r of Inl e \<Rightarrow> Inl e | Inr v \<Rightarrow> f v)"

text \<open>Python's truth value of an object, as \<^verbatim>\<open>not x\<close> and \<^verbatim>\<open>x or y\<close> test it.\<close>

fun truthy :: "json \<Rightarrow> bool" where
  "truthy JNull = False"
| "truthy (JBool b) = b"
| "truthy (JInt i) = (i \<noteq> 0)"
| "truthy (JFloat f) = (f \<noteq> Finite 0)"
| "truthy (JStr s) = (s \<noteq> [])"
| "truthy (JArr xs) = (xs \<noteq> [])"
| "truthy (JObj kvs) = (kvs \<noteq> [])"

text \<open>
  \<^verbatim>\<open>x[key]\<close> with a string key: a dict returns the value or raises KeyError; every
  other value raises TypeError (a list or a string wants an integer index, the rest is
  not subscriptable).
\<close>

fun subscript :: "json \<Rightarrow> string \<Rightarrow> exc + json" where
  "subscript (JObj kvs) k = (case map_of kvs k of None \<Rightarrow> Inl KeyError | Some v \<Rightarrow> Inr v)"
| "subscript _ k = Inl TypeError"

text \<open>\<^verbatim>\<open>s.split(c)\<close> for a one-character separator: never empty, keeps empty fields.\<close>

fun str_split :: "char \<Rightarrow> string \<Rightarrow> string list" where
  "str_split c [] = [[]]"
| "str_split c (x # xs) =
     (if x = c then [] # str_split c xs
      else (case str_split c xs of [] \<Rightarrow> [[x]] | w # ws \<Rightarrow> (x # w) # ws))"

text \<open>
  \<^verbatim>\<open>version.split('-')\<close> as resolve calls it on whatever the document holds under
  \<^verbatim>\<open>version\<close>: only a string has the method, any other value raises AttributeError.
\<close>

fun split_method :: "json \<Rightarrow> char \<Rightarrow> exc + string list" where
  "split_method (JStr s) c = Inr (str_split c s)"
| "split_method _ c = Inl AttributeError"

section \<open>The data classes\<close>

text \<open>
  Python does not check the annotations of a dataclass: a field holds the object the
  constructor was given. \<open>DataStructure\<close> receives what the document holds under
  \<^verbatim>\<open>vendor\<close>, \<^verbatim>\<open>name\<close> and \<^verbatim>\<open>format\<close>. A field of \<open>Version\<close> is an integer, as
  annotated, or a string, as \<^verbatim>\<open>resolve\<close> passes the pieces of \<^verbatim>\<open>str.split\<close>.
\<close>

record DataStructure =
  vendor :: json
  name :: json
  format :: json

datatype pyval = PInt int | PStr string

record Version =
  model :: pyval
  revision :: pyval
  addition :: pyval

record Deployment =
  data_structure :: DataStructure
  version :: Version

text \<open>
  \<^verbatim>\<open>Version(*parts)\<close>: the generated constructor takes exactly three positional
  arguments and raises TypeError on any other number.
\<close>

fun Version_init :: "string list \<Rightarrow> exc + Version" where
  "Version_init [m, r, a] = Inr \<lparr>model = PStr m, revision = PStr r, addition = PStr a\<rparr>"
| "Version_init _ = Inl TypeError"

section \<open>Events\<close>

text \<open>
  What a run does besides returning: the requests it hands to the HTTP library, the
  lines it logs (one constructor per \<^verbatim>\<open>logger.error\<close> call of the source, with the
  values the message is formatted from) and what it writes on standard output.
  \<open>Bearer t\<close> stands for the f-string \<^verbatim>\<open>f"Bearer {t}"\<close>.
\<close>

datatype hval = HStr string | Bearer json

datatype request =
    GET string "(string \<times> hval) list"
  | POST string json "(string \<times> hval) list"

datatype log_msg =
    CouldNotContact
  | TokenNotJSON string
  | TokenInvalidBody json
  | ActionFailed string json
  | ResponseNotJSON string
  | ResponseInvalidBody json
  | ActionFailedText string string
  | TypeMustBeEventOrEntity
  | SpecIncorrect
  | NoSelfElement
  | InputNotJSON
  | CouldNotRead

datatype event = Request request | Logged log_msg | Stdout string

section \<open>resolve\<close>

definition read_self :: "json \<Rightarrow> bool \<Rightarrow> exc + json" where
  "read_self document includes_meta =
     (if \<not> includes_meta then subscript document ''self''
      else and_then (subscript document ''data'') (\<lambda>d. subscript d ''self''))"

definition resolve_body :: "json \<Rightarrow> bool \<Rightarrow> exc + Deployment" where
  "resolve_body document includes_meta =
     and_then (read_self document includes_meta) (\<lambda>self.
     and_then (subscript self ''vendor'') (\<lambda>vendor'.
     and_then (subscript self ''name'') (\<lambda>name'.
     and_then (subscript self ''format'') (\<lambda>ds_format.
     and_then (subscript self ''version'') (\<lambda>version'.
     and_then (split_method version' CHR ''-'') (\<lambda>parts.
     and_then (Version_init parts) (\<lambda>v.
       Inr \<lparr>data_structure = \<lparr>vendor = vendor', name = name', format = ds_format\<rparr>,
            version = v\<rparr>)))))))"

definition resolve :: "json \<Rightarrow> bool \<Rightarrow> event list \<times> (exc + Deployment option)" where
  "resolve document includes_meta =
     (case resolve_body document includes_meta of
        Inr d \<Rightarrow> ([], Inr (Some d))
      | Inl ValueError \<Rightarrow> ([Logged SpecIncorrect], Inr None)
      | Inl KeyError \<Rightarrow> ([Logged NoSelfElement], Inr None)
      | Inl e \<Rightarrow> ([], Inl e))"

section \<open>Formatting\<close>

text \<open>\<^verbatim>\<open>str(n)\<close> of an integer: its decimal digits, with a minus sign when negative.\<close>

definition digit :: "nat \<Rightarrow> char" where
  "digit d = char_of (48 + d)"

fun str_nat :: "nat \<Rightarrow> string" where
  "str_nat n = (if n < 10 then [digit n] else str_nat (n div 10) @ [digit (n mod 10)])"

declare str_nat.simps [simp del]

definition str_int :: "int \<Rightarrow> string" where
  "str_int i = (if i < 0 then CHR ''-'' # str_nat (nat (- i)) else str_nat (nat i))"

text \<open>What a replacement field \<^verbatim>\<open>{}\<close> of \<^verbatim>\<open>str.format\<close> prints for a field of Version.\<close>

fun py_str :: "pyval \<Rightarrow> string" where
  "py_str (PInt i) = str_int i"
| "py_str (PStr s) = s"

text \<open>\<^verbatim>\<open>"{}-{}-{}".format(model, revision, addition)\<close>\<close>

definition format_version :: "Version \<Rightarrow> string" where
  "format_version v = py_str (model v) @ ''-'' @ py_str (revision v) @ ''-'' @ py_str (addition v)"

section \<open>The environment of a run\<close>

text \<open>
  A response of the HTTP library, as far as the script reads it: \<^verbatim>\<open>response.ok\<close>,
  \<^verbatim>\<open>response.text\<close>, and what \<^verbatim>\<open>response.json()\<close> does: \<open>None\<close> when it raises
  its JSONDecodeError, the decoded body otherwise.
\<close>

record response =
  ok :: bool
  body_text :: string
  json_body :: "json option"

text \<open>What \<^verbatim>\<open>json.load\<close> on the input does: the read fails, the text is not JSON, or a value.\<close>

datatype loaded = ReadError | DecodeError | Loaded json

text \<open>
  The configuration read from the process environment at start-up, the remote
  service (\<open>send\<close> answers a request; \<open>None\<close> is the library raising RequestException),
  standard input and the files.

  The exception \<^verbatim>\<open>response.json()\<close> raises on a body that is not JSON is the HTTP
  library's: since requests 2.27 its class derives from RequestException as well as
  from the JSONDecodeError of \<^verbatim>\<open>json\<close>, before that it was the latter alone.
  \<open>json_error_is_request_exception\<close> says which library the script runs on; it
  decides which handler of \<^verbatim>\<open>get_token\<close> catches the exception.
\<close>

record env =
  CONSOLE_HOST :: string
  CONSOLE_ORGANIZATION_ID :: string
  CONSOLE_API_KEY :: string
  send :: "request \<Rightarrow> response option"
  json_error_is_request_exception :: bool
  stdin :: loaded
  files :: "string \<Rightarrow> loaded"

definition BASE_URL :: "env \<Rightarrow> string" where
  "BASE_URL e = ''https://'' @ CONSOLE_HOST e @ ''.snowplowanalytics.com/api/msc/v1/organizations/''
     @ CONSOLE_ORGANIZATION_ID e"

definition DS_URL :: "env \<Rightarrow> string" where
  "DS_URL e = BASE_URL e @ ''/data-structures/v1''"

section \<open>get_token\<close>

definition token_request :: "env \<Rightarrow> request" where
  "token_request e =
     GET (BASE_URL e @ ''/credentials/v2/token'') [(''X-API-Key'', HStr (CONSOLE_API_KEY e))]"

text \<open>
  A function that falls off its end returns \<^verbatim>\<open>None\<close>, here \<open>JNull\<close>. The handlers catch
  RequestException, JSONDecodeError and KeyError, tried in this order: the exception of
  a body that is not JSON is caught by the first handler, and logged as a failure to
  contact the service, when it is a RequestException, and by the second otherwise.
  The TypeError of a body that is not a dict leaves the function.
\<close>

definition get_token :: "env \<Rightarrow> event list \<times> (exc + json)" where
  "get_token e =
     (case send e (token_request e) of
        None \<Rightarrow> ([Request (token_request e), Logged CouldNotContact], Inr JNull)
      | Some response \<Rightarrow>
          (case json_body response of
             None \<Rightarrow>
               (if json_error_is_request_exception e
                then ([Request (token_request e), Logged CouldNotContact], Inr JNull)
                else ([Request (token_request e), Logged (TokenNotJSON (body_text response))],
                      Inr JNull))
           | Some body \<Rightarrow>
               (case subscript body ''accessToken'' of
                  Inr t \<Rightarrow> ([Request (token_request e)], Inr t)
                | Inl KeyError \<Rightarrow>
                    ([Request (token_request e), Logged (TokenInvalidBody body)], Inr JNull)
                | Inl x \<Rightarrow> ([Request (token_request e)], Inl x))))"

definition get_base_headers :: "json \<Rightarrow> (string \<times> hval) list" where
  "get_base_headers auth_token = [(''Authorization'', Bearer auth_token)]"

section \<open>handle_response\<close>

definition handle_response :: "response \<Rightarrow> string \<Rightarrow> event list \<times> (exc + bool)" where
  "handle_response response action =
     (if ok response then
        (case json_body response of
           None \<Rightarrow> ([Logged (ResponseNotJSON (body_text response))], Inr False)
         | Some body \<Rightarrow>
             (case subscript body ''success'' of
                Inr s \<Rightarrow>
                  (if \<not> truthy s then
                     (case subscript body ''errors'' of
                        Inr errs \<Rightarrow> ([Logged (ActionFailed action errs)], Inr False)
                      | Inl KeyError \<Rightarrow> ([Logged (ResponseInvalidBody body)], Inr False)
                      | Inl x \<Rightarrow> ([], Inl x))
                   else ([], Inr True))
              | Inl KeyError \<Rightarrow> ([Logged (ResponseInvalidBody body)], Inr False)
              | Inl x \<Rightarrow> ([], Inl x)))
      else ([Logged (ActionFailedText action (body_text response))], Inr False))"

section \<open>validate\<close>

text \<open>The argument \<^verbatim>\<open>json=\<close> of the POST.\<close>

definition validation_payload :: "json \<Rightarrow> string \<Rightarrow> bool \<Rightarrow> json" where
  "validation_payload document stype contains_meta =
     (if \<not> contains_meta then
        JObj [(''meta'', JObj [(''hidden'', JBool False),
                               (''schemaType'', JStr stype),
                               (''customData'', JObj [])]),
              (''data'', document)]
      else document)"

definition validation_request :: "env \<Rightarrow> json \<Rightarrow> json \<Rightarrow> string \<Rightarrow> bool \<Rightarrow> request" where
  "validation_request e document auth_token stype contains_meta =
     POST (DS_URL e @ ''/validation-requests'')
          (validation_payload document stype contains_meta)
          (get_base_headers auth_token)"

text \<open>
  \<^verbatim>\<open>SchemaType\<close> is a \<^verbatim>\<open>str\<close> enumeration, so \<^verbatim>\<open>stype in (EVENT, ENTITY)\<close> compares
  the string with \<^verbatim>\<open>'event'\<close> and \<^verbatim>\<open>'entity'\<close>.
\<close>

definition validate :: "env \<Rightarrow> json \<Rightarrow> json \<Rightarrow> string \<Rightarrow> bool \<Rightarrow> event list \<times> (exc + bool)" where
  "validate e document auth_token stype contains_meta =
     (if stype \<noteq> ''event'' \<and> stype \<noteq> ''entity'' then
        ([Logged TypeMustBeEventOrEntity], Inr False)
      else
        (case send e (validation_request e document auth_token stype contains_meta) of
           None \<Rightarrow>
             ([Request (validation_request e document auth_token stype contains_meta),
               Logged CouldNotContact], Inr False)
         | Some response \<Rightarrow>
             (Request (validation_request e document auth_token stype contains_meta)
                # fst (handle_response response ''validation''),
              snd (handle_response response ''validation''))))"

section \<open>promote\<close>

definition promotion_payload :: "Deployment \<Rightarrow> string \<Rightarrow> bool \<Rightarrow> json" where
  "promotion_payload deployment deployment_message to_production =
     JObj [(''name'', name (data_structure deployment)),
           (''vendor'', vendor (data_structure deployment)),
           (''format'', format (data_structure deployment)),
           (''version'', JStr (format_version (version deployment))),
           (''source'', JStr (if \<not> to_production then ''VALIDATED'' else ''DEV'')),
           (''target'', JStr (if \<not> to_production then ''DEV'' else ''PROD'')),
           (''message'', JStr deployment_message)]"

definition promotion_request :: "env \<Rightarrow> Deployment \<Rightarrow> json \<Rightarrow> string \<Rightarrow> bool \<Rightarrow> request" where
  "promotion_request e deployment auth_token deployment_message to_production =
     POST (DS_URL e @ ''/deployment-requests'')
          (promotion_payload deployment deployment_message to_production)
          (get_base_headers auth_token)"

definition promote :: "env \<Rightarrow> Deployment \<Rightarrow> json \<Rightarrow> string \<Rightarrow> bool \<Rightarrow> event list \<times> (exc + bool)" where
  "promote e deployment auth_token deployment_message to_production =
     (case send e (promotion_request e deployment auth_token deployment_message to_production) of
        None \<Rightarrow>
          ([Request (promotion_request e deployment auth_token deployment_message to_production),
            Logged CouldNotContact], Inr False)
      | Some response \<Rightarrow>
          (Request (promotion_request e deployment auth_token deployment_message to_production)
             # fst (handle_response response ''promotion''),
           snd (handle_response response ''promotion'')))"

section \<open>The command line and the input\<close>

text \<open>
  The namespace \<^verbatim>\<open>parse_arguments\<close> returns: a flag is a boolean, an option that was
  not given is \<^verbatim>\<open>None\<close>. The field \<open>file'\<close> is \<^verbatim>\<open>args.file\<close>.
\<close>

record args =
  token_only :: bool
  token :: "string option"
  file' :: "string option"
  type :: "string option"
  includes_meta :: bool
  promote_to_dev :: bool
  promote_to_prod :: bool
  message :: "string option"

text \<open>
  \<^verbatim>\<open>x if x else d\<close> and \<^verbatim>\<open>x or d\<close> for an optional string \<open>x\<close>: \<^verbatim>\<open>None\<close> and the empty
  string are false.
\<close>

definition str_or :: "string option \<Rightarrow> string \<Rightarrow> string" where
  "str_or x d = (case x of None \<Rightarrow> d | Some s \<Rightarrow> if s = [] then d else s)"

text \<open>
  Both handlers of \<^verbatim>\<open>parse_input_file\<close> log and fall off the end of the function, which
  then returns \<^verbatim>\<open>None\<close>; \<^verbatim>\<open>if filename\<close> sends the empty name to standard input.
\<close>

definition parse_input_file :: "env \<Rightarrow> string option \<Rightarrow> event list \<times> json" where
  "parse_input_file e filename =
     (case (case filename of
              None \<Rightarrow> stdin e
            | Some f \<Rightarrow> if f = [] then stdin e else files e f) of
        Loaded v \<Rightarrow> ([], v)
      | DecodeError \<Rightarrow> ([Logged InputNotJSON], JNull)
      | ReadError \<Rightarrow> ([Logged CouldNotRead], JNull))"

section \<open>flow\<close>

text \<open>A statement after another: the events add up, an exception ends the sequence.\<close>

definition bind_ev ::
  "event list \<times> (exc + 'a) \<Rightarrow> ('a \<Rightarrow> event list \<times> (exc + 'b)) \<Rightarrow> event list \<times> (exc + 'b)" where
  "bind_ev m f =
     (case snd m of
        Inl x \<Rightarrow> (fst m, Inl x)
      | Inr v \<Rightarrow> (fst m @ fst (f v), snd (f v)))"

text \<open>\<^verbatim>\<open>args.message if args.message else "No message provided"\<close>\<close>

definition flow_message :: "args \<Rightarrow> string" where
  "flow_message a = str_or (message a) ''No message provided''"

text \<open>\<^verbatim>\<open>args.token if args.token else get_token()\<close>\<close>

definition flow_token :: "env \<Rightarrow> args \<Rightarrow> event list \<times> (exc + json)" where
  "flow_token e a =
     (case token a of
        None \<Rightarrow> get_token e
      | Some t \<Rightarrow> if t = [] then get_token e else ([], Inr (JStr t)))"

text \<open>\<^verbatim>\<open>args.type or "event"\<close>\<close>

definition flow_schema_type :: "args \<Rightarrow> string" where
  "flow_schema_type a = str_or (type a) ''event''"

text \<open>
  The four assignments run in the order of the source, each before the test of
  \<^verbatim>\<open>not token or not schema or not spec\<close>, whose operands are tried from the left.
  An instance of a dataclass is always true, so \<^verbatim>\<open>not spec\<close> asks whether resolve
  returned \<^verbatim>\<open>None\<close>.
\<close>

definition flow :: "env \<Rightarrow> args \<Rightarrow> event list \<times> (exc + bool)" where
  "flow e a =
     bind_ev (flow_token e a) (\<lambda>tok.
     bind_ev (fst (parse_input_file e (file' a)), Inr (snd (parse_input_file e (file' a)))) (\<lambda>schema.
     bind_ev (resolve schema (includes_meta a)) (\<lambda>spec.
       if \<not> truthy tok then ([], Inr False)
       else if \<not> truthy schema then ([], Inr False)
       else (case spec of
               None \<Rightarrow> ([], Inr False)
             | Some d \<Rightarrow>
                 if promote_to_dev a \<or> promote_to_prod a
                 then promote e d tok (flow_message a) (if promote_to_prod a then True else False)
                 else validate e schema tok (flow_schema_type a) (includes_meta a)))))"

section \<open>The script's entry point\<close>

text \<open>
  How the process ends: \<^verbatim>\<open>sys.exit(n)\<close>, or an exception nobody caught, on which the
  interpreter prints the traceback and ends the process with status 1.
\<close>

datatype ending = Exit nat | Traceback exc

text \<open>\<^verbatim>\<open>sys.stdout.write(token)\<close> takes a string and raises TypeError on anything else.\<close>

definition main :: "env \<Rightarrow> args \<Rightarrow> event list \<times> ending" where
  "main e a =
     (if token_only a then
        (case snd (get_token e) of
           Inl x \<Rightarrow> (fst (get_token e), Traceback x)
         | Inr tok \<Rightarrow>
             if \<not> truthy tok then (fst (get_token e), Exit 1)
             else (case tok of
                     JStr s \<Rightarrow> (fst (get_token e) @ [Stdout s], Exit 0)
                   | _ \<Rightarrow> (fst (get_token e), Traceback TypeError)))
      else
        (case snd (flow e a) of
           Inl x \<Rightarrow> (fst (flow e a), Traceback x)
         | Inr b \<Rightarrow> if \<not> b then (fst (flow e a), Exit 1) else (fst (flow e a), Exit 0)))"

section \<open>What a run sends\<close>

text \<open>The POST requests among the events of a run, in order: address and body.\<close>

fun posted :: "event list \<Rightarrow> (string \<times> json) list" where
  "posted [] = []"
| "posted (Request (POST u b h) # evs) = (u, b) # posted evs"
| "posted (ev # evs) = posted evs"

text \<open>All requests among the events of a run, in order.\<close>

fun requests :: "event list \<Rightarrow> request list" where
  "requests [] = []"
| "requests (Request r # evs) = r # requests evs"
| "requests (ev # evs) = requests evs"

section \<open>Example inputs\<close>

text \<open>The document of the specification's round trip, with the version string \<open>v\<close>.\<close>

definition acme_document :: "string \<Rightarrow> json" where
  "acme_document v =
     JObj [(''self'', JObj [(''vendor'', JStr ''com.acme''),
                            (''name'', JStr ''click''),
                            (''format'', JStr ''jsonschema''),
                            (''version'', JStr v)])]"

text \<open>
  A service that gives every request the same answer, on a current HTTP library, and
  the input on stdin.
\<close>

definition example_env :: "response option \<Rightarrow> loaded \<Rightarrow> env" where
  "example_env answer input =
     \<lparr>CONSOLE_HOST = ''console'', CONSOLE_ORGANIZATION_ID = ''org'', CONSOLE_API_KEY = ''key'',
      send = (\<lambda>r. answer), json_error_is_request_exception = True,
      stdin = input, files = (\<lambda>f. ReadError)\<rparr>"

text \<open>The command line \<^verbatim>\<open>dsctl.py --token abc\<close>.\<close>

definition example_args :: args where
  "example_args =
     \<lparr>token_only = False, token = Some ''abc'', file' = None, type = None,
      includes_meta = False, promote_to_dev = False, promote_to_prod = False, message = None\<rparr>"

definition success_response :: response where
  \<open>success_response =
     \<lparr>ok = True, body_text = ''{"success": true}'',
      json_body = Some (JObj [(''success'', JBool True)])\<rparr>\<close>

definition failure_response :: response where
  \<open>failure_response =
     \<lparr>ok = True, body_text = ''{"success": false, "errors": ["bad type"]}'',
      json_body = Some (JObj [(''success'', JBool False), (''errors'', JArr [JStr ''bad type''])])\<rparr>\<close>

definition no_response :: response where
  \<open>no_response =
     \<lparr>ok = True, body_text = ''{"success": "no"}'',
      json_body = Some (JObj [(''success'', JStr ''no'')])\<rparr>\<close>

definition html_response :: response where
  \<open>html_response = \<lparr>ok = True, body_text = ''<html></html>'', json_body = None\<rparr>\<close>

definition forbidden_response :: response where
  \<open>forbidden_response = \<lparr>ok = False, body_text = ''Forbidden'', json_body = None\<rparr>\<close>

text \<open>
  The reading of "the body's \<^verbatim>\<open>success\<close> field is true" by the JSON value: the body
  decodes to an object whose \<^verbatim>\<open>success\<close> member is the literal \<^verbatim>\<open>true\<close>.
\<close>

definition success_is_true :: "response \<Rightarrow> bool" where
  "success_is_true r =
     (case json_body r of
        None \<Rightarrow> False
      | Some body \<Rightarrow> subscript body ''success'' = Inr (JBool True))"

text \<open>
  What it means for a string to be the decimal numeral of an integer, said without
  \<open>str_int\<close>: the string is a minus sign, for a negative number only, followed by
  digits that do not start with a zero unless the zero is all there is, and the value
  of the digits, read from the left, is the magnitude of the number. An integer has
  exactly one such numeral; it is what Python's \<^verbatim>\<open>str\<close> gives.
\<close>

definition is_digit :: "char \<Rightarrow> bool" where
  "is_digit c = (c \<in> set ''0123456789'')"

definition digit_value :: "char \<Rightarrow> nat" where
  "digit_value c =
     (if c = CHR ''0'' then 0 else if c = CHR ''1'' then 1 else if c = CHR ''2'' then 2
      else if c = CHR ''3'' then 3 else if c = CHR ''4'' then 4 else if c = CHR ''5'' then 5
      else if c = CHR ''6'' then 6 else if c = CHR ''7'' then 7 else if c = CHR ''8'' then 8
      else 9)"

definition decimal_nat :: "string \<Rightarrow> nat" where
  "decimal_nat s = foldl (\<lambda>a c. 10 * a + digit_value c) 0 s"

definition canonical_nat :: "string \<Rightarrow> bool" where
  "canonical_nat s =
     (case s of
        [] \<Rightarrow> False
      | c # cs \<Rightarrow> list_all is_digit (c # cs) \<and> (if c = CHR ''0'' then cs = [] else True))"

definition is_decimal_of :: "string \<Rightarrow> int \<Rightarrow> bool" where
  "is_decimal_of s i =
     (case s of
        [] \<Rightarrow> False
      | c # cs \<Rightarrow>
          if c = CHR ''-'' then i < 0 \<and> canonical_nat cs \<and> int (decimal_nat cs) = - i
          else 0 \<le> i \<and> canonical_nat (c # cs) \<and> int (decimal_nat (c # cs)) = i)"

text \<open>\<^verbatim>\<open>c.join(ws)\<close>, the inverse of \<^verbatim>\<open>str.split\<close>.\<close>

fun join :: "char \<Rightarrow> string list \<Rightarrow> string" where
  "join c [] = []"
| "join c [w] = w"
| "join c (w # ws) = w @ c # join c ws"

section \<open>Facts about the pieces\<close>

lemma join_cons: "join c ((x # w) # ws) = x # join c (w # ws)"
  by (cases ws) simp_all

lemma str_split_not_empty: "str_split c s \<noteq> []"
  by (induction s) (auto split: list.splits)

lemma join_str_split: "join c (str_split c s) = s"
proof (induction s)
  case Nil
  then show ?case by simp
next
  case (Cons x xs)
  then show ?case
    using str_split_not_empty [of c xs]
    by (cases "str_split c xs") (auto simp: join_cons)
qed

text \<open>\<open>str_int\<close> writes the decimal numeral of its argument.\<close>

lemma digit_table:
  "digit 0 = CHR ''0''" "digit 1 = CHR ''1''" "digit 2 = CHR ''2''" "digit 3 = CHR ''3''"
  "digit 4 = CHR ''4''" "digit 5 = CHR ''5''" "digit 6 = CHR ''6''" "digit 7 = CHR ''7''"
  "digit 8 = CHR ''8''" "digit 9 = CHR ''9''" "digit (Suc 0) = CHR ''1''"
  by code_simp+

lemma digit_cases:
  "d < 10 \<Longrightarrow>
   d = 0 \<or> d = 1 \<or> d = 2 \<or> d = 3 \<or> d = 4 \<or> d = 5 \<or> d = 6 \<or> d = 7 \<or> d = 8 \<or> d = (9::nat)"
  by arith

lemma digit_props:
  assumes "d < 10"
  shows "is_digit (digit d)" and "digit_value (digit d) = d"
    and "(digit d = CHR ''0'') = (d = 0)" and "digit d \<noteq> CHR ''-''"
  using digit_cases [OF assms]
  by (auto simp: digit_table is_digit_def digit_value_def)

lemma decimal_nat_snoc: "decimal_nat (s @ [c]) = 10 * decimal_nat s + digit_value c"
  by (simp add: decimal_nat_def)

lemma str_nat_shape:
  "\<exists>c cs. str_nat n = c # cs \<and> is_digit c \<and> list_all is_digit cs \<and> c \<noteq> CHR ''-''
     \<and> (c = CHR ''0'' \<longrightarrow> n = 0 \<and> cs = [])"
proof (induction n rule: str_nat.induct)
  case (1 n)
  show ?case
  proof (cases "n < 10")
    case True
    then show ?thesis
      by (subst str_nat.simps) (simp add: digit_props)
  next
    case False
    then obtain c cs where ih: "str_nat (n div 10) = c # cs" "is_digit c" "list_all is_digit cs"
        "c \<noteq> CHR ''-''" "c = CHR ''0'' \<longrightarrow> n div 10 = 0 \<and> cs = []"
      using "1.IH" by blast
    have "n div 10 \<noteq> 0" using False by simp
    then have "c \<noteq> CHR ''0''" using ih(5) by blast
    moreover have "n mod 10 < 10" by simp
    ultimately show ?thesis
      using False ih by (subst str_nat.simps) (simp add: digit_props)
  qed
qed

lemma decimal_nat_str_nat: "decimal_nat (str_nat n) = n"
proof (induction n rule: str_nat.induct)
  case (1 n)
  show ?case
  proof (cases "n < 10")
    case True
    then show ?thesis
      by (subst str_nat.simps) (simp add: decimal_nat_def digit_props)
  next
    case False
    then have "decimal_nat (str_nat (n div 10)) = n div 10"
      using "1.IH" by simp
    then show ?thesis
      using False by (subst str_nat.simps) (simp add: decimal_nat_snoc digit_props)
  qed
qed

lemma canonical_nat_str_nat: "canonical_nat (str_nat n)"
  using str_nat_shape [of n] by (auto simp: canonical_nat_def)

lemma is_decimal_of_str_int: "is_decimal_of (str_int i) i"
proof (cases "i < 0")
  case True
  then show ?thesis
    by (simp add: str_int_def is_decimal_of_def canonical_nat_str_nat decimal_nat_str_nat)
next
  case False
  obtain c cs where s: "str_nat (nat i) = c # cs" "c \<noteq> CHR ''-''"
    using str_nat_shape [of "nat i"] by blast
  have "canonical_nat (c # cs)" "decimal_nat (c # cs) = nat i"
    using canonical_nat_str_nat [of "nat i"] decimal_nat_str_nat [of "nat i"] s by simp_all
  then show ?thesis
    using False s by (simp add: str_int_def is_decimal_of_def)
qed

lemma str_int_examples:
  "str_int 0 = ''0''" "str_int 1 = ''1''" "str_int 12 = ''12''" "str_int 345 = ''345''"
  "str_int (- 7) = ''-7''"
  by code_simp+

text \<open>
  Whatever version string resolve accepts, the string promote sends is that string
  again: the pieces are kept as they were cut.
\<close>

lemma format_version_Version_init:
  assumes "Version_init (str_split CHR ''-'' s) = Inr v"
  shows "format_version v = s"
proof -
  obtain m r a where parts: "str_split CHR ''-'' s = [m, r, a]"
    using assms by (cases "str_split CHR ''-'' s" rule: Version_init.cases) auto
  then have v: "v = \<lparr>model = PStr m, revision = PStr r, addition = PStr a\<rparr>"
    using assms by simp
  have "join CHR ''-'' [m, r, a] = s"
    using join_str_split [of "CHR ''-''" s] parts by simp
  then show ?thesis
    by (simp add: v format_version_def)
qed

text \<open>The exceptions each step of resolve can raise: ValueError is not among them.\<close>

lemma subscript_raises: "subscript j k = Inl x \<Longrightarrow> x = KeyError \<or> x = TypeError"
  by (cases j) (auto split: option.splits)

lemma split_method_raises: "split_method j c = Inl x \<Longrightarrow> x = AttributeError"
  by (cases j) auto

lemma Version_init_raises: "Version_init ps = Inl x \<Longrightarrow> x = TypeError"
  by (cases ps rule: Version_init.cases) auto

lemma and_then_raises:
  "and_then r f = Inl x \<Longrightarrow> r = Inl x \<or> (\<exists>v. r = Inr v \<and> f v = Inl x)"
  by (cases r) (auto simp: and_then_def)

lemma read_self_raises: "read_self d m = Inl x \<Longrightarrow> x = KeyError \<or> x = TypeError"
  unfolding read_self_def
  by (auto split: if_splits dest!: and_then_raises subscript_raises)

lemma resolve_body_never_ValueError: "resolve_body d m \<noteq> Inl ValueError"
proof
  assume "resolve_body d m = Inl ValueError"
  then show False
    unfolding resolve_body_def
    by (auto dest!: and_then_raises read_self_raises subscript_raises split_method_raises
          Version_init_raises)
qed

lemma resolve_never_logs_SpecIncorrect: "Logged SpecIncorrect \<notin> set (fst (resolve d m))"
  using resolve_body_never_ValueError [of d m]
  by (auto simp: resolve_def split: sum.splits exc.splits)

text \<open>Only validate and promote post; the events of every other step hold no POST.\<close>

lemma posted_append: "posted (xs @ ys) = posted xs @ posted ys"
  by (induction xs rule: posted.induct) auto

lemma posted_handle_response: "posted (fst (handle_response r a)) = []"
  by (auto simp: handle_response_def split: option.splits sum.splits exc.splits)

lemma requests_handle_response: "requests (fst (handle_response r a)) = []"
  by (auto simp: handle_response_def split: option.splits sum.splits exc.splits)

lemma posted_get_token: "posted (fst (get_token e)) = []"
  by (auto simp: get_token_def token_request_def split: option.splits sum.splits exc.splits)

lemma posted_flow_token: "posted (fst (flow_token e a)) = []"
  by (auto simp: flow_token_def posted_get_token split: option.splits)

lemma posted_parse_input_file: "posted (fst (parse_input_file e f)) = []"
  by (auto simp: parse_input_file_def split: option.splits loaded.splits)

lemma posted_resolve: "posted (fst (resolve d m)) = []"
  by (auto simp: resolve_def split: sum.splits exc.splits)

lemma posted_validate:
  "stype = ''event'' \<or> stype = ''entity'' \<Longrightarrow>
   posted (fst (validate e doc tok stype cm)) =
     [(DS_URL e @ ''/validation-requests'', validation_payload doc stype cm)]"
  by (auto simp: validate_def validation_request_def posted_handle_response split: option.splits)

lemma posted_promote:
  "posted (fst (promote e d tok msg tp)) =
     [(DS_URL e @ ''/deployment-requests'', promotion_payload d msg tp)]"
  by (auto simp: promote_def promotion_request_def posted_handle_response split: option.splits)

text \<open>
  Past the three assignments, flow is the dispatch: with a token, a document and an
  identity, its POSTs and its result are those of the one call it makes, and its events
  are those of the assignments followed by those of that call.
\<close>

lemma flow_dispatch:
  assumes "snd (flow_token e a) = Inr tok" and "truthy tok"
    and "truthy (snd (parse_input_file e (file' a)))"
    and "snd (resolve (snd (parse_input_file e (file' a))) (includes_meta a)) = Inr (Some d)"
  shows "posted (fst (flow e a)) =
           posted (fst (if promote_to_dev a \<or> promote_to_prod a
                        then promote e d tok (flow_message a) (promote_to_prod a)
                        else validate e (snd (parse_input_file e (file' a))) tok
                               (flow_schema_type a) (includes_meta a)))"
    and "snd (flow e a) =
           snd (if promote_to_dev a \<or> promote_to_prod a
                then promote e d tok (flow_message a) (promote_to_prod a)
                else validate e (snd (parse_input_file e (file' a))) tok
                       (flow_schema_type a) (includes_meta a))"
    and "fst (flow e a) =
           fst (flow_token e a) @ fst (parse_input_file e (file' a))
           @ fst (resolve (snd (parse_input_file e (file' a))) (includes_meta a))
           @ fst (if promote_to_dev a \<or> promote_to_prod a
                  then promote e d tok (flow_message a) (promote_to_prod a)
                  else validate e (snd (parse_input_file e (file' a))) tok
                         (flow_schema_type a) (includes_meta a))"
  using assms
  by (simp_all add: flow_def bind_ev_def posted_append posted_flow_token
        posted_parse_input_file posted_resolve)

text \<open>
  The guard of flow: when the token is absent, or resolve returned no identity, flow
  returns \<^verbatim>\<open>False\<close> and has posted nothing.
\<close>

lemma flow_guard:
  assumes "snd (flow_token e a) = Inr tok"
    and "snd (resolve (snd (parse_input_file e (file' a))) (includes_meta a)) = Inr spec"
    and "\<not> truthy tok \<or> \<not> truthy (snd (parse_input_file e (file' a))) \<or> spec = None"
  shows "snd (flow e a) = Inr False \<and> posted (fst (flow e a)) = []"
  using assms
  by (auto simp: flow_def bind_ev_def posted_append posted_flow_token
        posted_parse_input_file posted_resolve)

text \<open>
  An absent document never reaches that guard: resolve subscripts \<^verbatim>\<open>None\<close> first, and
  the TypeError is not one of the exceptions it handles.
\<close>

lemma resolve_None_raises: "resolve JNull m = ([], Inl TypeError)"
  by (simp add: resolve_def resolve_body_def read_self_def and_then_def)

section \<open>Identity resolution\<close>

text \<open>
  Claim C1. For every version string that does not split on the hyphen into exactly
  three components that parse as integers, resolve fails (returns no Deployment) and
  sends nothing; a Deployment is only built from three integer components.

  The source cuts the string and hands the pieces to the constructor of Version as
  they are; nothing converts them, so the handler for ValueError is never entered.
  With the version \<^verbatim>\<open>a-b-c\<close> resolve returns a Deployment whose version holds the
  strings a, b and c and logs nothing; with the two components of \<^verbatim>\<open>1-0\<close> it does
  not return at all: the TypeError of the constructor leaves it.
\<close>

theorem resolve_keeps_non_integer_version:
  "resolve (acme_document ''a-b-c'') False =
     ([], Inr (Some \<lparr>data_structure =
                        \<lparr>vendor = JStr ''com.acme'', name = JStr ''click'',
                         format = JStr ''jsonschema''\<rparr>,
                      version =
                        \<lparr>model = PStr ''a'', revision = PStr ''b'', addition = PStr ''c''\<rparr>\<rparr>))
   \<and> resolve (acme_document ''1-0'') False = ([], Inl TypeError)"
  by (simp add: acme_document_def resolve_def resolve_body_def read_self_def and_then_def)

text \<open>
  Claim C8. The document with self = (com.acme, click, jsonschema, version 1-0-0)
  resolves to the identity (com.acme, click, jsonschema) and the version
  (model 1, revision 0, addition 0), and joining the resolved components with hyphens,
  as promote does, gives 1-0-0 again.

  The identity and the round trip are as claimed. The components of the version are
  the strings 1, 0 and 0, not the integers the data model names: the source never
  converts them.
\<close>

theorem resolve_acme_document:
  "resolve (acme_document ''1-0-0'') False =
     ([], Inr (Some \<lparr>data_structure =
                        \<lparr>vendor = JStr ''com.acme'', name = JStr ''click'',
                         format = JStr ''jsonschema''\<rparr>,
                      version =
                        \<lparr>model = PStr ''1'', revision = PStr ''0'', addition = PStr ''0''\<rparr>\<rparr>))
   \<and> \<lparr>model = PStr ''1'', revision = PStr ''0'', addition = PStr ''0''\<rparr>
       \<noteq> \<lparr>model = PInt 1, revision = PInt 0, addition = PInt 0\<rparr>
   \<and> format_version \<lparr>model = PStr ''1'', revision = PStr ''0'', addition = PStr ''0''\<rparr>
       = ''1-0-0''"
  by (simp add: acme_document_def resolve_def resolve_body_def read_self_def and_then_def
        format_version_def)

section \<open>Failures\<close>

text \<open>
  Claim C2. In every error category (transport error, response that is not JSON,
  missing response field, malformed local input such as a missing self or a malformed
  version string, and success false from the service) the program logs a message and
  returns an absent or false result to its caller; no input crashes the process, and
  every failure ends the process with exit code 1.

  A version string of two components is malformed local input, and it crashes the
  process: run as \<^verbatim>\<open>dsctl.py --token abc\<close> on the document with version \<^verbatim>\<open>1-0\<close>, the
  script logs nothing, sends nothing, and ends on the uncaught TypeError of the
  constructor of Version.
\<close>

theorem main_malformed_version_traceback:
  "main (example_env None (Loaded (acme_document ''1-0''))) example_args
     = ([], Traceback TypeError)"
  by (simp add: main_def flow_def bind_ev_def flow_token_def parse_input_file_def
        example_env_def example_args_def acme_document_def
        resolve_def resolve_body_def read_self_def and_then_def)

text \<open>
  Claim C3. In the flow that is not token-only, if the token, the schema document or
  the resolved identity is absent (the token could not be fetched, the input could
  not be read or is not JSON, or resolve failed), flow returns failure at once and
  sends neither a validation nor a promotion request.

  Lemma \<open>flow_guard\<close> is the claim for an absent token and an absent identity. For an
  absent document the source calls resolve on \<^verbatim>\<open>None\<close> before the test that would
  have returned \<^verbatim>\<open>False\<close>: on input that is not JSON, flow logs the parse error, posts
  nothing, and raises TypeError instead of returning.
\<close>

theorem flow_absent_document_raises:
  "flow (example_env None DecodeError) example_args = ([Logged InputNotJSON], Inl TypeError)
   \<and> posted (fst (flow (example_env None DecodeError) example_args)) = []"
  by (simp add: flow_def bind_ev_def flow_token_def parse_input_file_def
        example_env_def example_args_def
        resolve_def resolve_body_def read_self_def and_then_def)

section \<open>Interpreting a response\<close>

text \<open>
  Claim C4. The interpretation of a response, shared by validate and promote, returns
  success if and only if the HTTP status is a success status, the body parses as JSON
  and the \<^verbatim>\<open>success\<close> field of the body is true; a status that is not a success, a
  body that does not parse, a body with \<^verbatim>\<open>success\<close> false, and a transport error each
  give failure.

  The source tests \<^verbatim>\<open>not body['success']\<close>, Python's truth value of the field: a body
  whose \<^verbatim>\<open>success\<close> is the string \<^verbatim>\<open>"no"\<close> is a success, although the field is not
  \<^verbatim>\<open>true\<close>.
\<close>

theorem handle_response_truth_value_counterexample:
  "snd (handle_response no_response ''validation'') = Inr True
   \<and> \<not> (ok no_response \<and> json_body no_response \<noteq> None \<and> success_is_true no_response)"
  by (simp add: handle_response_def no_response_def success_is_true_def)

text \<open>
  Claim C4, amended. handle_response returns \<^verbatim>\<open>True\<close> if and only if the status is a
  success status, the body parses as JSON, and the body is an object whose
  \<^verbatim>\<open>success\<close> member has a true truth value in Python's sense (anything but
  \<^verbatim>\<open>false\<close>, \<^verbatim>\<open>null\<close>, zero, the empty string, list or object). It returns
  \<^verbatim>\<open>False\<close> on a status that is not a success, on a body that does not parse, and on
  a body whose \<^verbatim>\<open>success\<close> member has a false truth value; validate and promote
  return \<^verbatim>\<open>False\<close> on a transport error.
\<close>

theorem handle_response_success_iff:
  "(snd (handle_response r action) = Inr True \<longleftrightarrow>
      ok r \<and> (\<exists>body s. json_body r = Some body \<and> subscript body ''success'' = Inr s \<and> truthy s))
   \<and> (\<not> ok r \<longrightarrow> snd (handle_response r action) = Inr False)
   \<and> (json_body r = None \<longrightarrow> snd (handle_response r action) = Inr False)
   \<and> (\<forall>body s. json_body r = Some body \<and> subscript body ''success'' = Inr s \<and> \<not> truthy s
         \<longrightarrow> snd (handle_response r action) = Inr False)
   \<and> (send e (validation_request e doc tok stype cm) = None
         \<longrightarrow> snd (validate e doc tok stype cm) = Inr False)
   \<and> (send e (promotion_request e d tok msg tp) = None
         \<longrightarrow> snd (promote e d tok msg tp) = Inr False)"
proof (intro conjI allI impI)
  show "snd (handle_response r action) = Inr True \<longleftrightarrow>
      ok r \<and> (\<exists>body s. json_body r = Some body \<and> subscript body ''success'' = Inr s \<and> truthy s)"
    by (auto simp: handle_response_def split: option.splits sum.splits exc.splits)
next
  assume "\<not> ok r"
  then show "snd (handle_response r action) = Inr False"
    by (simp add: handle_response_def)
next
  assume "json_body r = None"
  then show "snd (handle_response r action) = Inr False"
    by (simp add: handle_response_def)
next
  fix body s
  assume "json_body r = Some body \<and> subscript body ''success'' = Inr s \<and> \<not> truthy s"
  then show "snd (handle_response r action) = Inr False"
    by (cases body) (auto simp: handle_response_def split: option.splits sum.splits exc.splits)
next
  assume "send e (validation_request e doc tok stype cm) = None"
  then show "snd (validate e doc tok stype cm) = Inr False"
    by (simp add: validate_def)
next
  assume "send e (promotion_request e d tok msg tp) = None"
  then show "snd (promote e d tok msg tp) = Inr False"
    by (simp add: promote_def)
qed

theorem handle_response_success_iff_witness:
  "snd (handle_response success_response ''validation'') = Inr True
   \<and> \<not> ok forbidden_response
   \<and> snd (handle_response forbidden_response ''validation'') = Inr False
   \<and> json_body html_response = None
   \<and> snd (handle_response html_response ''validation'') = Inr False
   \<and> json_body failure_response
        = Some (JObj [(''success'', JBool False), (''errors'', JArr [JStr ''bad type''])])
   \<and> subscript (JObj [(''success'', JBool False), (''errors'', JArr [JStr ''bad type''])])
        ''success'' = Inr (JBool False)
   \<and> \<not> truthy (JBool False)
   \<and> snd (handle_response failure_response ''promotion'') = Inr False
   \<and> send (example_env None ReadError)
        (validation_request (example_env None ReadError) (acme_document ''1-0-0'')
           (JStr ''abc'') ''event'' False) = None
   \<and> snd (validate (example_env None ReadError) (acme_document ''1-0-0'')
           (JStr ''abc'') ''event'' False) = Inr False"
  using
    handle_response_success_iff [of success_response "''validation''"]
    handle_response_success_iff [of forbidden_response "''validation''"]
    handle_response_success_iff [of html_response "''validation''"]
    handle_response_success_iff [of failure_response "''promotion''"]
    handle_response_success_iff [of _ _ "example_env None ReadError" "acme_document ''1-0-0''"
      "JStr ''abc''" "''event''" False]
  by (simp add: success_response_def forbidden_response_def html_response_def
        failure_response_def example_env_def)

section \<open>Validation requests\<close>

text \<open>
  Claim C5. For every document and every valid schema type, validate posts the payload
  (meta: (hidden: false, schemaType, customData: the empty object), data: document)
  when the envelope is not already present, and the document itself, unmodified, when
  it is. The POST is the only one validate makes.
\<close>

theorem validate_sends_payload:
  "stype = ''event'' \<or> stype = ''entity'' \<Longrightarrow>
   posted (fst (validate e doc tok stype False)) =
     [(DS_URL e @ ''/validation-requests'',
       JObj [(''meta'', JObj [(''hidden'', JBool False),
                              (''schemaType'', JStr stype),
                              (''customData'', JObj [])]),
             (''data'', doc)])]
   \<and> posted (fst (validate e doc tok stype True)) = [(DS_URL e @ ''/validation-requests'', doc)]"
  by (simp add: posted_validate validation_payload_def)

theorem validate_sends_payload_witness:
  "(''entity'' = ''event'' \<or> ''entity'' = ''entity'')
   \<and> posted (fst (validate (example_env (Some success_response) ReadError)
                     (acme_document ''1-0-0'') (JStr ''abc'') ''entity'' False)) =
       [(''https://console.snowplowanalytics.com/api/msc/v1/organizations/org/data-structures/v1/validation-requests'',
         JObj [(''meta'', JObj [(''hidden'', JBool False),
                                (''schemaType'', JStr ''entity''),
                                (''customData'', JObj [])]),
               (''data'', acme_document ''1-0-0'')])]
   \<and> posted (fst (validate (example_env (Some success_response) ReadError)
                     (acme_document ''1-0-0'') (JStr ''abc'') ''entity'' True)) =
       [(''https://console.snowplowanalytics.com/api/msc/v1/organizations/org/data-structures/v1/validation-requests'',
         acme_document ''1-0-0'')]"
  using validate_sends_payload [of "''entity''" "example_env (Some success_response) ReadError"
      "acme_document ''1-0-0''" "JStr ''abc''"]
  by (simp add: DS_URL_def BASE_URL_def example_env_def)

text \<open>
  Claim C7. For every schema type other than event and entity, validate returns
  failure without any network call, whatever the document, the token and the envelope
  flag are.
\<close>

theorem validate_rejects_other_types:
  "stype \<noteq> ''event'' \<Longrightarrow> stype \<noteq> ''entity'' \<Longrightarrow>
   snd (validate e doc tok stype cm) = Inr False \<and> requests (fst (validate e doc tok stype cm)) = []"
  by (simp add: validate_def)

theorem validate_rejects_other_types_witness:
  "''struct'' \<noteq> ''event'' \<and> ''struct'' \<noteq> ''entity''
   \<and> snd (validate (example_env (Some success_response) ReadError) (acme_document ''1-0-0'')
            (JStr ''abc'') ''struct'' False) = Inr False
   \<and> requests (fst (validate (example_env (Some success_response) ReadError)
                      (acme_document ''1-0-0'') (JStr ''abc'') ''struct'' False)) = []"
  using validate_rejects_other_types [of "''struct''"
      "example_env (Some success_response) ReadError" "acme_document ''1-0-0''" "JStr ''abc''" False]
  by simp

section \<open>Promotion requests\<close>

text \<open>
  Claim C6. For every deployment, token and message, promote to development
  (to_production false) posts a payload with source VALIDATED and target DEV, and
  promote to production (to_production true) one with source DEV and target PROD; the
  version of the payload is model, revision and addition joined by hyphens.

  The two payloads are stated in full. What stands for a component between the hyphens
  is stated too: a string component stands as it is, an integer component as its
  decimal numeral. The last two parts are the payload for the integer version
  (12, 0, 345), sent as 12-0-345, and for the string version (1, 0, 0) that resolve
  makes of the document of the round trip, sent as 1-0-0.
\<close>

theorem promote_sends_payload:
  "posted (fst (promote e d tok msg False)) =
     [(DS_URL e @ ''/deployment-requests'',
       JObj [(''name'', name (data_structure d)),
             (''vendor'', vendor (data_structure d)),
             (''format'', format (data_structure d)),
             (''version'', JStr (py_str (model (version d)) @ ''-''
                                  @ py_str (revision (version d)) @ ''-''
                                  @ py_str (addition (version d)))),
             (''source'', JStr ''VALIDATED''),
             (''target'', JStr ''DEV''),
             (''message'', JStr msg)])]
   \<and> posted (fst (promote e d tok msg True)) =
     [(DS_URL e @ ''/deployment-requests'',
       JObj [(''name'', name (data_structure d)),
             (''vendor'', vendor (data_structure d)),
             (''format'', format (data_structure d)),
             (''version'', JStr (py_str (model (version d)) @ ''-''
                                  @ py_str (revision (version d)) @ ''-''
                                  @ py_str (addition (version d)))),
             (''source'', JStr ''DEV''),
             (''target'', JStr ''PROD''),
             (''message'', JStr msg)])]
   \<and> py_str (PStr s) = s
   \<and> is_decimal_of (py_str (PInt i)) i
   \<and> posted (fst (promote e
                   \<lparr>data_structure = ds,
                    version = \<lparr>model = PInt 12, revision = PInt 0, addition = PInt 345\<rparr>\<rparr>
                   tok msg False)) =
     [(DS_URL e @ ''/deployment-requests'',
       JObj [(''name'', name ds),
             (''vendor'', vendor ds),
             (''format'', format ds),
             (''version'', JStr ''12-0-345''),
             (''source'', JStr ''VALIDATED''),
             (''target'', JStr ''DEV''),
             (''message'', JStr msg)])]
   \<and> posted (fst (promote e
                   \<lparr>data_structure = ds,
                    version = \<lparr>model = PStr ''1'', revision = PStr ''0'', addition = PStr ''0''\<rparr>\<rparr>
                   tok msg True)) =
     [(DS_URL e @ ''/deployment-requests'',
       JObj [(''name'', name ds),
             (''vendor'', vendor ds),
             (''format'', format ds),
             (''version'', JStr ''1-0-0''),
             (''source'', JStr ''DEV''),
             (''target'', JStr ''PROD''),
             (''message'', JStr msg)])]"
  by (simp add: posted_promote promotion_payload_def format_version_def
        is_decimal_of_str_int str_int_examples)

section \<open>The dispatch of flow\<close>

text \<open>
  Claim C9. When both \<^verbatim>\<open>--promote-to-dev\<close> and \<^verbatim>\<open>--promote-to-prod\<close> are set, the program
  prefers production without a word: it dispatches exactly one promotion, with source
  DEV and target PROD.

  The dispatch is the last step of flow; it is reached with a token, a document and
  a resolved identity, which are the hypotheses here besides the two flags. The events
  of flow are then those of its three assignments and of the one call of promote:
  nothing is logged about the two flags.
\<close>

theorem flow_both_flags_promotes_to_production:
  assumes "promote_to_dev a" and "promote_to_prod a"
    and "snd (flow_token e a) = Inr tok" and "truthy tok"
    and "truthy (snd (parse_input_file e (file' a)))"
    and "snd (resolve (snd (parse_input_file e (file' a))) (includes_meta a)) = Inr (Some d)"
  shows "posted (fst (flow e a)) =
           [(DS_URL e @ ''/deployment-requests'', promotion_payload d (flow_message a) True)]
         \<and> subscript (promotion_payload d (flow_message a) True) ''source'' = Inr (JStr ''DEV'')
         \<and> subscript (promotion_payload d (flow_message a) True) ''target'' = Inr (JStr ''PROD'')
         \<and> snd (flow e a) = snd (promote e d tok (flow_message a) True)
         \<and> fst (flow e a) =
             fst (flow_token e a) @ fst (parse_input_file e (file' a))
             @ fst (resolve (snd (parse_input_file e (file' a))) (includes_meta a))
             @ fst (promote e d tok (flow_message a) True)"
proof -
  have "posted (fst (flow e a)) = posted (fst (promote e d tok (flow_message a) True))"
    using flow_dispatch(1) [OF assms(3-6)] assms(1,2) by simp
  moreover have "snd (flow e a) = snd (promote e d tok (flow_message a) True)"
    using flow_dispatch(2) [OF assms(3-6)] assms(1,2) by simp
  moreover have "fst (flow e a) =
      fst (flow_token e a) @ fst (parse_input_file e (file' a))
      @ fst (resolve (snd (parse_input_file e (file' a))) (includes_meta a))
      @ fst (promote e d tok (flow_message a) True)"
    using flow_dispatch(3) [OF assms(3-6)] assms(1,2) by simp
  ultimately show ?thesis
    by (simp add: posted_promote promotion_payload_def)
qed

theorem flow_both_flags_promotes_to_production_witness:
  "promote_to_dev (example_args\<lparr>promote_to_dev := True, promote_to_prod := True\<rparr>)
   \<and> promote_to_prod (example_args\<lparr>promote_to_dev := True, promote_to_prod := True\<rparr>)
   \<and> posted (fst (flow (example_env (Some success_response) (Loaded (acme_document ''1-0-0'')))
                    (example_args\<lparr>promote_to_dev := True, promote_to_prod := True\<rparr>))) =
       [(''https://console.snowplowanalytics.com/api/msc/v1/organizations/org/data-structures/v1/deployment-requests'',
         JObj [(''name'', JStr ''click''),
               (''vendor'', JStr ''com.acme''),
               (''format'', JStr ''jsonschema''),
               (''version'', JStr ''1-0-0''),
               (''source'', JStr ''DEV''),
               (''target'', JStr ''PROD''),
               (''message'', JStr ''No message provided'')])]
   \<and> snd (flow (example_env (Some success_response) (Loaded (acme_document ''1-0-0'')))
             (example_args\<lparr>promote_to_dev := True, promote_to_prod := True\<rparr>)) = Inr True
   \<and> length (fst (flow (example_env (Some success_response) (Loaded (acme_document ''1-0-0'')))
                    (example_args\<lparr>promote_to_dev := True, promote_to_prod := True\<rparr>))) = 1"
  using flow_both_flags_promotes_to_production
    [of "example_args\<lparr>promote_to_dev := True, promote_to_prod := True\<rparr>"
        "example_env (Some success_response) (Loaded (acme_document ''1-0-0''))"
        "JStr ''abc''"
        "\<lparr>data_structure = \<lparr>vendor = JStr ''com.acme'', name = JStr ''click'',
                              format = JStr ''jsonschema''\<rparr>,
          version = \<lparr>model = PStr ''1'', revision = PStr ''0'', addition = PStr ''0''\<rparr>\<rparr>"]
  by (simp add: example_args_def example_env_def acme_document_def success_response_def
        flow_token_def parse_input_file_def resolve_def resolve_body_def read_self_def
        and_then_def flow_message_def str_or_def promotion_payload_def format_version_def
        DS_URL_def BASE_URL_def promote_def promotion_request_def handle_response_def
        flow_def bind_ev_def)



end
